theory Spec2Isabelle
  imports Main
begin

section \<open>JavaScript values as the handlers see them\<close>

text \<open>
  A request parameter is whatever the query parser (\<open>qs.parse\<close>) or the body parsers
  (\<open>express.json\<close>, \<open>express.urlencoded\<close>) produced: a string, an array, a nested
  object, and for JSON bodies also \<open>null\<close>, a boolean or a number. A property that is
  absent reads as \<open>undefined\<close>. A JSON number is carried by the string that
  \<open>Number.prototype.toString\<close> prints for it (\<open>300\<close>, \<open>0.5\<close>, \<open>1e+21\<close>), so
  that zero is exactly \<open>JNum ''0''\<close>.
\<close>

datatype jsval =
    Undefined
  | JNull
  | JBool bool
  | JNum string
  | JStr string
  | JArr "jsval list"
  | JObj "(string \<times> jsval) list"

text \<open>ToBoolean.\<close>

fun truthy :: "jsval \<Rightarrow> bool" where
  "truthy Undefined = False"
| "truthy JNull = False"
| "truthy (JBool b) = b"
| "truthy (JNum s) = (s \<noteq> ''0'')"
| "truthy (JStr s) = (s \<noteq> [])"
| "truthy (JArr xs) = True"
| "truthy (JObj kvs) = True"

text \<open>The operator \<open>a || b\<close> on values.\<close>

definition js_or :: "jsval \<Rightarrow> jsval \<Rightarrow> jsval" where
  "js_or a b = (if truthy a then a else b)"

fun join :: "string \<Rightarrow> string list \<Rightarrow> string" where
  "join sep [] = []"
| "join sep [x] = x"
| "join sep (x # y # ys) = x @ sep @ join sep (y # ys)"

text \<open>
  ToString. An array prints its elements joined by commas, with \<open>null\<close> and
  \<open>undefined\<close> elements printed as the empty string; a plain object prints as
  \<open>[object Object]\<close>. The query parser drops keys that shadow a method of
  \<open>Object.prototype\<close>, so this is the conversion of every value of \<open>req.query\<close>.
  A JSON body can hold an object with an own property named \<open>toString\<close>; converting
  such an object throws a TypeError, and that path is left out here.
\<close>

fun toString :: "jsval \<Rightarrow> string" where
  "toString Undefined = ''undefined''"
| "toString JNull = ''null''"
| "toString (JBool b) = (if b then ''true'' else ''false'')"
| "toString (JNum s) = s"
| "toString (JStr s) = s"
| "toString (JArr xs) =
     join '','' (map (\<lambda>x. if x = Undefined \<or> x = JNull then [] else toString x) xs)"
| "toString (JObj kvs) = ''[object Object]''"

text \<open>
  A JavaScript number that came out of \<open>parseInt\<close>: \<open>NaN\<close> or an integer. The model
  keeps the mathematical integer; the JavaScript Number is the nearest double, which is
  the same value up to \<open>2 ^ 53\<close> in magnitude. Beyond that the Number is a rounded
  value, or \<open>Infinity\<close> for a very long run of digits, on the same side of every
  integer below \<open>2 ^ 53\<close> as the exact value, and zero only when the exact value is.
\<close>

datatype number = NaN | Num int

definition isWhiteSpace :: "char \<Rightarrow> bool" where
  "isWhiteSpace c = (of_char c \<in> {9, 10, 11, 12, 13, 32, 160 :: nat})"

definition isDigit :: "char \<Rightarrow> bool" where
  "isDigit c = (48 \<le> (of_char c :: nat) \<and> (of_char c :: nat) \<le> 57)"

definition digitsValue :: "string \<Rightarrow> int" where
  "digitsValue z = foldl (\<lambda>acc c. acc * 10 + (int (of_char c) - 48)) 0 z"

text \<open>
  \<open>parseInt(v, 10)\<close>: the argument is converted to a string, leading white space is
  dropped, one sign is read, then the longest run of decimal digits; no digit gives
  \<open>NaN\<close>.
\<close>

definition parseInt :: "jsval \<Rightarrow> number" where
  "parseInt v =
     (let s = dropWhile isWhiteSpace (toString v);
          neg = (s \<noteq> [] \<and> hd s = CHR ''-'');
          s1 = (if s \<noteq> [] \<and> (hd s = CHR ''+'' \<or> hd s = CHR ''-'') then tl s else s);
          z = takeWhile isDigit s1
      in if z = [] then NaN
         else Num ((if neg then -1 else 1) * digitsValue z))"

text \<open>\<open>Math.min(a, x)\<close> with a finite first argument: \<open>NaN\<close> is contagious.\<close>

fun math_min :: "int \<Rightarrow> number \<Rightarrow> number" where
  "math_min a NaN = NaN"
| "math_min a (Num n) = Num (min a n)"

text \<open>\<open>x || d\<close> on numbers: \<open>NaN\<close> and zero are falsy.\<close>

fun num_or :: "number \<Rightarrow> int \<Rightarrow> int" where
  "num_or NaN d = d"
| "num_or (Num n) d = (if n = 0 then d else n)"

text \<open>
  \<open>String.prototype.toLowerCase\<close> on code units below 256: the ASCII capitals and
  the Latin-1 capitals (all of \<open>0xC0..0xDE\<close> but the multiplication sign) move up
  by 32.
\<close>

definition lower_char :: "char \<Rightarrow> char" where
  "lower_char c =
     (let n = (of_char c :: nat)
      in if (65 \<le> n \<and> n \<le> 90) \<or> (192 \<le> n \<and> n \<le> 222 \<and> n \<noteq> 215)
         then char_of (n + 32) else c)"

definition toLowerCase :: "string \<Rightarrow> string" where
  "toLowerCase s = map lower_char s"

text \<open>\<open>s.split(sep)\<close> for a one-character separator, and the read of index 1.\<close>

fun split_on :: "char \<Rightarrow> string \<Rightarrow> string list" where
  "split_on sep [] = [[]]"
| "split_on sep (c # cs) =
     (if c = sep then [] # split_on sep cs
      else (case split_on sep cs of
              [] \<Rightarrow> [[c]]
            | p # ps \<Rightarrow> (c # p) # ps))"

definition index1 :: "'a list \<Rightarrow> 'a option" where
  "index1 xs = (case xs of _ # x # _ \<Rightarrow> Some x | _ \<Rightarrow> None)"

section \<open>Requests, responses and the collaborators\<close>

type_synonym params = "string \<Rightarrow> jsval"

datatype http_verb = GET | HEAD | POST | OtherMethod

text \<open>
  A request after the parsers have run: \<open>query\<close> is \<open>req.query\<close>, \<open>body\<close> is
  \<open>req.body\<close> (the empty object when nothing was parsed), \<open>ip\<close> the client
  address and \<open>now\<close> the arrival time in milliseconds.
\<close>

record request =
  req_verb :: http_verb
  req_path :: string
  query :: params
  body :: params
  ip :: string
  now :: nat

datatype buffer = Buffer (octets: "char list")

definition buf_length :: "buffer \<Rightarrow> nat" where
  "buf_length b = length (octets b)"

datatype hval = HStr string | HNum nat

text \<open>What \<open>res.writeHead(status, headers)\<close> followed by \<open>res.end(body)\<close> sends.\<close>

record response =
  status :: nat
  headers :: "(string \<times> hval) list"
  content :: buffer

text \<open>
  A value handed to a failure function: a message string, or an error object with its
  name and message. \<open>failure_toString\<close> is its conversion inside a template
  literal (\<open>Error.prototype.toString\<close> for an error object).
\<close>

datatype failure = Message string | ErrorObj string string

fun failure_toString :: "failure \<Rightarrow> string" where
  "failure_toString (Message s) = s"
| "failure_toString (ErrorObj name msg) =
     (if msg = [] then name else if name = [] then msg else name @ '': '' @ msg)"

text \<open>The payload and the options that the handlers give to the \<open>qrcode\<close> package.\<close>

datatype segment = Segment (seg_data: string) (seg_mode: string)

datatype qrdata = Text string | Segments "segment list"

datatype sjis_fn = toSJIS

record color =
  dark :: jsval
  light :: jsval

record qrOpts =
  margin :: int
  width :: int
  errorCorrectionLevel :: jsval
  color :: color
  toSJISFunc :: "sjis_fn option"

text \<open>
  Everything the handlers call that lives outside \<open>index.js\<close> and \<open>lib/qr.js\<close>
  is a field of the environment, so every theorem holds for any behaviour of it. Some
  fields are third-party packages and runtime primitives: \<open>text2png\<close> with its
  padding and background colour, \<open>qrcode.toString\<close> and \<open>qrcode.toDataURL\<close>
  (promises, here a failure or a string), \<open>Buffer.from(_, 'utf8')\<close>,
  \<open>Buffer.from(_, 'base64')\<close> (which throws on \<open>undefined\<close>),
  \<open>decodeURIComponent\<close> (which throws on a malformed escape) and the variable
  \<open>RATE_LIMIT_PER_MIN\<close> of the process environment.
\<close>

text \<open>
  Modelled from the spec: the modules \<open>./api_keys\<close>, \<open>./lib/charts\<close> and
  \<open>./lib/pdf\<close> belong to the repository but are not among its sources here; their
  fields have the signatures of the specification's Key Store and Renderer Adapters:
  a membership test, \<open>ChartRenderer(width, height, backgroundColor, spec) -> bytes | error\<close>,
  \<open>PdfFromImage(bytes) -> bytes\<close> and \<open>PdfFromText(message) -> bytes\<close>.
\<close>

record env =
  apiKeys_has :: "jsval \<Rightarrow> bool"
  renderChart :: "int \<Rightarrow> int \<Rightarrow> jsval \<Rightarrow> jsval \<Rightarrow> failure + buffer"
  getPdfBufferFromPng :: "buffer \<Rightarrow> buffer"
  getPdfBufferWithText :: "failure \<Rightarrow> buffer"
  text2png :: "string \<Rightarrow> nat \<Rightarrow> string \<Rightarrow> buffer"
  qrcode_toString :: "qrdata \<Rightarrow> qrOpts \<Rightarrow> failure + string"
  qrcode_toDataURL :: "qrdata \<Rightarrow> qrOpts \<Rightarrow> failure + string"
  Buffer_from_utf8 :: "string \<Rightarrow> buffer"
  Buffer_from_base64 :: "string option \<Rightarrow> failure + buffer"
  decodeURIComponent :: "string \<Rightarrow> failure + string"
  RATE_LIMIT_PER_MIN :: "string option"

section \<open>The failure functions\<close>

definition failPng :: "env \<Rightarrow> failure \<Rightarrow> response" where
  "failPng e msg =
     \<lparr>status = 500,
      headers = [(''Content-Type'', HStr ''image/png'')],
      content = text2png e (''Chart Error: '' @ failure_toString msg) 10 ''#fff''\<rparr>"

definition failPdf :: "env \<Rightarrow> failure \<Rightarrow> response" where
  "failPdf e msg =
     \<lparr>status = 500,
      headers = [(''Content-Type'', HStr ''application/pdf'')],
      content = getPdfBufferWithText e msg\<rparr>"

section \<open>The chart handlers\<close>

record opts =
  chart :: jsval
  height :: jsval
  width :: jsval
  backgroundColor :: jsval

text \<open>The dimensions \<open>doRender\<close> computes: the default stays when the option is
  falsy or does not parse.\<close>

definition render_height :: "opts \<Rightarrow> int" where
  "render_height opts =
     (if truthy (opts.height opts)
      then (case parseInt (opts.height opts) of NaN \<Rightarrow> 300 | Num heightNum \<Rightarrow> heightNum)
      else 300)"

definition render_width :: "opts \<Rightarrow> int" where
  "render_width opts =
     (if truthy (opts.width opts)
      then (case parseInt (opts.width opts) of NaN \<Rightarrow> 500 | Num widthNum \<Rightarrow> widthNum)
      else 500)"

text \<open>
  \<open>doRender\<close> with the two callbacks it reads from \<open>opts\<close>. The promise of
  \<open>renderChart\<close> is its outcome: the success handler runs on a buffer, the failure
  function on a rejection.
\<close>

definition doRender ::
  "env \<Rightarrow> (failure \<Rightarrow> response) \<Rightarrow> (buffer \<Rightarrow> response) \<Rightarrow> opts \<Rightarrow> response" where
  "doRender e failFn onRenderHandler opts =
     (if \<not> truthy (chart opts)
      then failFn (Message ''You are missing variable `c` or `chart`'')
      else
        (let untrustedInput = chart opts;
             backgroundColor = js_or (opts.backgroundColor opts) (JStr ''transparent'')
         in case renderChart e (render_width opts) (render_height opts) backgroundColor
                   untrustedInput of
              Inr buf \<Rightarrow> onRenderHandler buf
            | Inl err \<Rightarrow> failFn err))"

definition doRenderChart :: "env \<Rightarrow> opts \<Rightarrow> response" where
  "doRenderChart e opts =
     doRender e (failPng e)
       (\<lambda>buf. \<lparr>status = 200,
               headers = [(''Content-Type'', HStr ''image/png''),
                          (''Content-Length'', HNum (buf_length buf)),
                          (''Cache-Control'', HStr ''public, max-age=604800'')],
               content = buf\<rparr>) opts"

definition doRenderPdf :: "env \<Rightarrow> opts \<Rightarrow> response" where
  "doRenderPdf e opts =
     doRender e (failPdf e)
       (\<lambda>buf. let pdfBuf = getPdfBufferFromPng e buf
              in \<lparr>status = 200,
                  headers = [(''Content-Type'', HStr ''application/pdf''),
                             (''Content-Length'', HNum (buf_length pdfBuf)),
                             (''Cache-Control'', HStr ''public, max-age=604800'')],
                  content = pdfBuf\<rparr>) opts"

text \<open>
  What a handler does with a request: it answers, or it throws before answering (then
  the framework's error handler takes over). The other constructors are the outcomes of
  the surrounding application.
\<close>

datatype outcome =
    Responded response
  | Threw string
  | TooManyRequests string
  | Rendered string
  | SentFile string
  | NotFound

text \<open>The option object and the output format, read from \<open>req.query\<close> by the GET
  handler and from \<open>req.body\<close> by the POST handler.\<close>

definition chart_opts :: "params \<Rightarrow> opts" where
  "chart_opts p =
     \<lparr>chart = js_or (p ''c'') (p ''chart''),
      height = js_or (p ''h'') (p ''height''),
      width = js_or (p ''w'') (p ''width''),
      backgroundColor = js_or (p ''backgroundColor'') (p ''bkg'')\<rparr>"

text \<open>\<open>(p.f || p.format || '').toLowerCase()\<close>: a value that is not a string has no
  such method, and the call throws a TypeError.\<close>

definition outputFormat :: "params \<Rightarrow> string option" where
  "outputFormat p =
     (case js_or (js_or (p ''f'') (p ''format'')) (JStr []) of
        JStr s \<Rightarrow> Some (toLowerCase s)
      | _ \<Rightarrow> None)"

definition chart_handler :: "env \<Rightarrow> params \<Rightarrow> outcome" where
  "chart_handler e p =
     (let opts = chart_opts p
      in case outputFormat p of
           None \<Rightarrow> Threw ''TypeError''
         | Some f \<Rightarrow>
             if f = ''pdf'' then Responded (doRenderPdf e opts)
             else Responded (doRenderChart e opts))"

definition app_get_chart :: "env \<Rightarrow> request \<Rightarrow> outcome" where
  "app_get_chart e req = chart_handler e (query req)"

definition app_post_chart :: "env \<Rightarrow> request \<Rightarrow> outcome" where
  "app_post_chart e req = chart_handler e (body req)"

section \<open>The QR renderer of \<open>lib/qr.js\<close> and the QR handler\<close>

definition qr_error :: "failure \<Rightarrow> failure" where
  "qr_error err =
     ErrorObj ''Error'' (''Could not generate QR'' @ [CHR 0x0A] @ failure_toString err)"

text \<open>The promise that \<open>renderQr\<close> returns, for the payload and the options it
  has prepared: the SVG text as UTF-8 bytes, or the decoded second part of the data
  URL. Every rejection, also one thrown inside a \<open>then\<close> callback, is wrapped.\<close>

definition qr_promise :: "env \<Rightarrow> string \<Rightarrow> qrdata \<Rightarrow> qrOpts \<Rightarrow> failure + buffer" where
  "qr_promise e format finalQrData finalQrOpts =
     (if format = ''svg''
      then (case qrcode_toString e finalQrData finalQrOpts of
              Inr str \<Rightarrow> Inr (Buffer_from_utf8 e str)
            | Inl err \<Rightarrow> Inl (qr_error err))
      else (case qrcode_toDataURL e finalQrData finalQrOpts of
              Inr dataUrl \<Rightarrow>
                (case Buffer_from_base64 e (index1 (split_on CHR '','' dataUrl)) of
                   Inr buf \<Rightarrow> Inr buf
                 | Inl err \<Rightarrow> Inl (qr_error err))
            | Inl err \<Rightarrow> Inl (qr_error err)))"

definition renderQr :: "env \<Rightarrow> string \<Rightarrow> jsval \<Rightarrow> string \<Rightarrow> qrOpts \<Rightarrow> failure + buffer" where
  "renderQr e format mode qrData qrOpts =
     (let finalQrData =
            (if mode = JStr ''sjis'' then Segments [Segment qrData ''kanji'']
             else Text qrData);
          finalQrOpts =
            (if mode = JStr ''sjis'' then qrOpts\<lparr>toSJISFunc := Some toSJIS\<rparr>
             else qrOpts)
      in qr_promise e format finalQrData finalQrOpts)"

definition qr_format :: "params \<Rightarrow> string" where
  "qr_format q = (if q ''format'' = JStr ''svg'' then ''svg'' else ''png'')"

definition qr_margin :: "params \<Rightarrow> int" where
  "qr_margin q = num_or (parseInt (q ''margin'')) 4"

definition qr_size :: "params \<Rightarrow> int" where
  "qr_size q = num_or (math_min 3000 (parseInt (q ''size''))) 150"

definition qr_opts :: "params \<Rightarrow> qrOpts" where
  "qr_opts q =
     \<lparr>margin = qr_margin q,
      width = qr_size q,
      errorCorrectionLevel = js_or (q ''ecLevel'') Undefined,
      color = \<lparr>dark = js_or (q ''dark'') (JStr ''000''),
               light = js_or (q ''light'') (JStr ''fff'')\<rparr>,
      toSJISFunc = None\<rparr>"

definition app_get_qr :: "env \<Rightarrow> request \<Rightarrow> response" where
  "app_get_qr e req =
     (let q = query req
      in if \<not> truthy (q ''text'')
         then failPng e (Message ''You are missing variable `text`'')
         else
           (let format = qr_format q;
                mode = q ''mode''
            in case decodeURIComponent e (toString (q ''text'')) of
                 Inl err \<Rightarrow> failPng e (Message ''URI malformed'')
               | Inr qrData \<Rightarrow>
                   (case renderQr e format mode qrData (qr_opts q) of
                      Inr buf \<Rightarrow>
                        \<lparr>status = 200,
                         headers = [(''Content-Type'', HStr (''image/'' @ format)),
                                    (''Content-Length'', HNum (buf_length buf)),
                                    (''Cache-Control'', HStr ''public, max-age=604800'')],
                         content = buf\<rparr>
                    | Inl err \<Rightarrow> failPng e err)))"

section \<open>The rate limiter\<close>

text \<open>The options that \<open>index.js\<close> passes to \<open>rateLimit\<close>, and the test that
  guards the whole block. The option \<open>onLimitReached\<close> only writes a log line.\<close>

definition rate_limit_enabled :: "env \<Rightarrow> bool" where
  "rate_limit_enabled e =
     (case RATE_LIMIT_PER_MIN e of None \<Rightarrow> False | Some s \<Rightarrow> s \<noteq> [])"

definition limitMax :: "env \<Rightarrow> number" where
  "limitMax e =
     (case RATE_LIMIT_PER_MIN e of None \<Rightarrow> NaN | Some s \<Rightarrow> parseInt (JStr s))"

definition windowMs :: nat where
  "windowMs = 60 * 1000"

definition message :: string where
  "message = ''Please slow down your requests! This is a shared public endpoint. Email contact@quickchart.io for rate limit exceptions or to purchase a commercial license.''"

definition skip :: "env \<Rightarrow> request \<Rightarrow> bool" where
  "skip e req =
     (if truthy (query req ''key'') then apiKeys_has e (query req ''key'') else False)"

text \<open>
  The state of the limiter: one window per client identity, created on the first
  request that counts.
\<close>

record RateWindow =
  windowStart :: nat
  count :: nat

type_synonym store = "string \<Rightarrow> RateWindow option"

datatype verdict = Allow | Reject

text \<open>
  Modelled from the spec: the limit test of the middleware of \<open>express-rate-limit\<close>,
  which is not part of the sources. By the contract of the specification's Rate Limiter
  a count is over the limit when it exceeds it; the package makes the test only for a
  truthy limit (\<open>max && current > max\<close>), so a limit that is \<open>NaN\<close> or zero is
  exceeded by no count.
\<close>

fun exceeds :: "nat \<Rightarrow> number \<Rightarrow> bool" where
  "exceeds c NaN = False"
| "exceeds c (Num limit) = (limit \<noteq> 0 \<and> limit < int c)"

text \<open>
  Modelled from the spec: the window a request counts in. The middleware that the
  package \<open>express-rate-limit\<close> builds is not part of the sources; by the contract of
  the specification's Rate Limiter the window of the client identity is created when
  absent and restarted with count 0 when the window duration or more has elapsed
  since its start.
\<close>

definition current_window :: "nat \<Rightarrow> store \<Rightarrow> request \<Rightarrow> RateWindow" where
  "current_window windowDurationMs st req =
     (case st (ip req) of
        None \<Rightarrow> \<lparr>windowStart = now req, count = 0\<rparr>
      | Some w \<Rightarrow>
          if windowDurationMs \<le> now req - windowStart w
          then \<lparr>windowStart = now req, count = 0\<rparr>
          else w)"

text \<open>
  Modelled from the spec: the middleware of \<open>express-rate-limit\<close>, which is not part
  of the sources, by the contract of the specification's Rate Limiter. A request that
  the \<open>skip\<close> option accepts is allowed without consuming quota. Otherwise the count
  of the current window is incremented, and the request is rejected when the
  incremented count exceeds the limit.
\<close>

definition rateLimit ::
  "nat \<Rightarrow> number \<Rightarrow> (request \<Rightarrow> bool) \<Rightarrow> store \<Rightarrow> request \<Rightarrow> verdict \<times> store" where
  "rateLimit windowDurationMs limit skipFn st req =
     (if skipFn req then (Allow, st)
      else
        (let w = current_window windowDurationMs st req;
             w' = w\<lparr>count := count w + 1\<rparr>
         in (if exceeds (count w') limit then Reject else Allow,
             st(ip req := Some w'))))"

text \<open>The limiter of \<open>index.js\<close>: the middleware with the options given there.\<close>

definition limiter :: "env \<Rightarrow> store \<Rightarrow> request \<Rightarrow> verdict \<times> store" where
  "limiter e = rateLimit windowMs (limitMax e) (skip e)"

section \<open>The application\<close>

text \<open>
  Path matching as the framework compiles it for these literal paths, case-insensitive
  and with an optional trailing slash: a route matches the whole path, a mount point
  matches the path itself or any path below it.
\<close>

definition strip_slash :: "string \<Rightarrow> string" where
  "strip_slash pat = (if pat \<noteq> [] \<and> last pat = CHR ''/'' then butlast pat else pat)"

definition route_matches :: "string \<Rightarrow> string \<Rightarrow> bool" where
  "route_matches pat path =
     (let p = toLowerCase path; b = strip_slash pat
      in p = b \<or> p = b @ ''/'')"

definition mount_matches :: "string \<Rightarrow> string \<Rightarrow> bool" where
  "mount_matches pat path =
     (let p = toLowerCase path; b = strip_slash pat
      in p = b \<or> take (length b + 1) p = b @ ''/'')"

text \<open>A route registered with \<open>app.get\<close> also serves HEAD requests.\<close>

definition is_get :: "http_verb \<Rightarrow> bool" where
  "is_get m = (m = GET \<or> m = HEAD)"

definition routes :: "env \<Rightarrow> request \<Rightarrow> outcome" where
  "routes e req =
     (let m = req_verb req; p = req_path req
      in if is_get m \<and> route_matches ''/'' p then Rendered ''index''
         else if is_get m \<and> route_matches ''/robots.txt'' p
           then SentFile ''./templates/robots.txt''
         else if is_get m \<and> route_matches ''/chart'' p then app_get_chart e req
         else if m = POST \<and> route_matches ''/chart'' p then app_post_chart e req
         else if is_get m \<and> route_matches ''/qr'' p then Responded (app_get_qr e req)
         else NotFound)"

text \<open>
  The middleware stack from the limiter on, in registration order: the limiter is
  mounted on \<open>/chart\<close> when \<open>RATE_LIMIT_PER_MIN\<close> is set, then come the routes. The
  store of rate windows is the only state that survives a request. The static file
  server and the body parsers registered before the limiter pass these requests on;
  what the parsers produce is already in the request record.
\<close>

definition app :: "env \<Rightarrow> store \<Rightarrow> request \<Rightarrow> outcome \<times> store" where
  "app e st req =
     (if rate_limit_enabled e \<and> mount_matches ''/chart'' (req_path req)
      then (case limiter e st req of
              (Reject, st') \<Rightarrow> (TooManyRequests message, st')
            | (Allow, st') \<Rightarrow> (routes e req, st'))
      else (routes e req, st))"

section \<open>Concrete inputs\<close>

definition no_params :: params where
  "no_params = (\<lambda>_. Undefined)"

definition example_env :: env where
  "example_env =
     \<lparr>apiKeys_has = (\<lambda>k. k = JStr ''secret''),
      renderChart = (\<lambda>w h bg c. Inl (ErrorObj ''Error'' ''bad chart'')),
      getPdfBufferFromPng = (\<lambda>b. Buffer (''%PDF'' @ octets b)),
      getPdfBufferWithText = (\<lambda>m. Buffer (''%PDF'' @ failure_toString m)),
      text2png = (\<lambda>s pad bg. Buffer (''PNG'' @ s)),
      qrcode_toString =
        (\<lambda>d opts. case d of
                    Text t \<Rightarrow> Inr (''text:'' @ t)
                  | Segments ss \<Rightarrow>
                      if toSJISFunc opts = None
                      then Inl (ErrorObj ''Error'' ''no SJIS function'')
                      else Inr (''kanji:'' @ concat (map seg_data ss))),
      qrcode_toDataURL = (\<lambda>d opts. Inr ''data:image/png;base64,AAAA''),
      Buffer_from_utf8 = Buffer,
      Buffer_from_base64 =
        (\<lambda>s. case s of None \<Rightarrow> Inl (ErrorObj ''TypeError'' ''not a string'')
                       | Some x \<Rightarrow> Inr (Buffer x)),
      decodeURIComponent = Inr,
      RATE_LIMIT_PER_MIN = Some ''2''\<rparr>"

definition example_request :: request where
  "example_request =
     \<lparr>req_verb = GET, req_path = ''/qr'', query = no_params, body = no_params,
      ip = ''10.0.0.1'', now = 1000\<rparr>"

definition post_request :: request where
  "post_request =
     \<lparr>req_verb = POST, req_path = ''/chart'', query = no_params,
      body = no_params(''key'' := JStr ''secret'', ''c'' := JStr ''{}''),
      ip = ''10.0.0.1'', now = 1000\<rparr>"

definition key_request :: request where
  "key_request =
     example_request\<lparr>req_path := ''/chart'',
                      query := no_params(''key'' := JStr ''secret'', ''c'' := JStr ''{}'')\<rparr>"

definition pdf_params :: params where
  "pdf_params = no_params(''c'' := JStr ''{}'', ''f'' := JStr ''PDF'')"

definition svg_request :: request where
  "svg_request =
     example_request\<lparr>query := no_params(''text'' := JStr ''hello'', ''format'' := JStr ''svg'')\<rparr>"

definition sjis_request :: request where
  "sjis_request =
     example_request\<lparr>query := no_params(''text'' := JStr ''abc'', ''mode'' := JStr ''sjis'',
                                         ''format'' := JStr ''svg'')\<rparr>"

definition byte_request :: request where
  "byte_request =
     example_request\<lparr>query := no_params(''text'' := JStr ''abc'', ''mode'' := JStr ''byte'',
                                         ''format'' := JStr ''svg'')\<rparr>"

definition busy_store :: store where
  "busy_store = (\<lambda>_. None)(''10.0.0.1'' := Some \<lparr>windowStart = 500, count = 1000\<rparr>)"

section \<open>Properties of the QR parameters\<close>

lemmas parse_defs = parseInt_def isWhiteSpace_def isDigit_def digitsValue_def

lemma qr_size_cases:
  "qr_size q =
     (case parseInt (q ''size'') of
        NaN \<Rightarrow> 150
      | Num n \<Rightarrow> if n = 0 then 150 else min 3000 n)"
  by (cases "parseInt (q ''size'')") (auto simp: qr_size_def)

text \<open>
  Claim C1 says that a size parameter that parses to 5000 or to 3001 gives the
  default size 150, and that 3000 gives 3000. On the code the first two fail:
  \<open>Math.min(3000, 5000)\<close> is 3000, which is truthy, so the default is not taken.
\<close>

theorem qr_size_5000_counterexample:
  "qr_size (no_params(''size'' := JStr ''5000'')) \<noteq> 150
   \<and> qr_size (no_params(''size'' := JStr ''3001'')) \<noteq> 150"
  by (simp add: qr_size_def parse_defs)

text \<open>
  Claim C1, amended: whenever the size parameter parses to an integer of at least 3000
  (so for 3000, 3001 and 5000), the size handed to the renderer is 3000.
\<close>

theorem qr_size_clamped:
  "parseInt (q ''size'') = Num n \<Longrightarrow> 3000 \<le> n \<Longrightarrow> qr_size q = 3000"
  by (simp add: qr_size_def)

theorem qr_size_clamped_witness:
  "parseInt ((no_params(''size'' := JStr ''5000'')) ''size'') = Num 5000
   \<and> (3000::int) \<le> 5000
   \<and> qr_size (no_params(''size'' := JStr ''5000'')) = 3000"
proof -
  have p: "parseInt ((no_params(''size'' := JStr ''5000'')) ''size'') = Num 5000"
    by (simp add: parse_defs)
  from qr_size_clamped [of "no_params(''size'' := JStr ''5000'')" 5000] p
  show ?thesis by simp
qed

text \<open>
  Claim C8 says that a margin parameter that parses to a non-negative integer \<open>n\<close>,
  zero included, gives the margin \<open>n\<close>. The code computes \<open>parseInt(margin) || 4\<close>:
  a parsed margin is kept unless it is zero, and zero is replaced by the default 4.
\<close>

theorem qr_margin_parsed:
  "parseInt (q ''margin'') = Num n \<Longrightarrow> qr_margin q = (if n = 0 then 4 else n)"
  by (simp add: qr_margin_def)

theorem qr_margin_parsed_witness:
  "parseInt ((no_params(''margin'' := JStr ''0'')) ''margin'') = Num 0
   \<and> qr_margin (no_params(''margin'' := JStr ''0'')) = 4"
proof -
  have p: "parseInt ((no_params(''margin'' := JStr ''0'')) ''margin'') = Num 0"
    by (simp add: parse_defs)
  from qr_margin_parsed [of "no_params(''margin'' := JStr ''0'')" 0] p
  show ?thesis by simp
qed

section \<open>Properties of the QR handler and renderer\<close>

lemma route_qr_not_under_chart:
  "route_matches ''/qr'' p \<Longrightarrow> \<not> mount_matches ''/chart'' p"
  by (auto simp: route_matches_def mount_matches_def strip_slash_def Let_def)

lemma route_qr_only:
  assumes "route_matches ''/qr'' p"
  shows "\<not> route_matches ''/'' p"
    and "\<not> route_matches ''/robots.txt'' p"
    and "\<not> route_matches ''/chart'' p"
  using assms by (auto simp: route_matches_def strip_slash_def Let_def)

lemma example_route_qr: "route_matches ''/qr'' (req_path example_request)"
  by (simp add: example_request_def route_matches_def strip_slash_def toLowerCase_def
      lower_char_def)

text \<open>
  Claim C3: the limiter is mounted on \<open>/chart\<close> only. A request whose path the
  \<open>/qr\<close> route matches is not under that mount point; whatever the rate-limit
  configuration and the store of windows, the application leaves the store as it was
  and answers a GET or HEAD request with the answer of the QR handler (any other verb
  finds no route), never with the limiter's rejection.
\<close>

theorem qr_never_rate_limited:
  assumes "route_matches ''/qr'' (req_path req)"
  shows "\<not> mount_matches ''/chart'' (req_path req)
         \<and> app e st req =
             (if is_get (req_verb req) then Responded (app_get_qr e req) else NotFound,
              st)"
  using assms route_qr_not_under_chart [OF assms] route_qr_only [OF assms]
  by (simp add: app_def routes_def)

theorem qr_never_rate_limited_witness:
  "route_matches ''/qr'' (req_path example_request)
   \<and> is_get (req_verb example_request)
   \<and> rate_limit_enabled example_env
   \<and> app example_env busy_store example_request
       = (Responded (app_get_qr example_env example_request), busy_store)"
proof -
  have g: "is_get (req_verb example_request)"
    by (simp add: example_request_def is_get_def)
  have l: "rate_limit_enabled example_env"
    by (simp add: example_env_def rate_limit_enabled_def)
  from qr_never_rate_limited [OF example_route_qr, of example_env busy_store]
    example_route_qr g l
  show ?thesis by simp
qed

text \<open>
  Claim C5: a GET request to \<open>/qr\<close> without a \<open>text\<close> parameter is answered with
  status 500, the single header \<open>Content-Type: image/png\<close>, and as body the image
  that \<open>text2png\<close> draws for the text \<open>Chart Error: You are missing variable `text`\<close>.
\<close>

theorem missing_text_png:
  assumes "req_verb req = GET" and "route_matches ''/qr'' (req_path req)"
    and "query req ''text'' = Undefined"
  shows "app e st req =
           (Responded
              \<lparr>status = 500,
               headers = [(''Content-Type'', HStr ''image/png'')],
               content =
                 text2png e ''Chart Error: You are missing variable `text`'' 10 ''#fff''\<rparr>,
            st)"
  using assms route_qr_not_under_chart [OF assms(2)] route_qr_only [OF assms(2)]
  by (simp add: app_def routes_def is_get_def app_get_qr_def failPng_def)

theorem missing_text_png_witness:
  "req_verb example_request = GET
   \<and> route_matches ''/qr'' (req_path example_request)
   \<and> query example_request ''text'' = Undefined
   \<and> fst (app example_env busy_store example_request) =
        Responded
          \<lparr>status = 500,
           headers = [(''Content-Type'', HStr ''image/png'')],
           content = Buffer ''PNGChart Error: You are missing variable `text`''\<rparr>"
proof -
  have g: "req_verb example_request = GET"
    by (simp add: example_request_def)
  have t: "query example_request ''text'' = Undefined"
    by (simp add: example_request_def no_params_def)
  from missing_text_png [OF g example_route_qr t, of example_env busy_store]
    example_route_qr g t
  show ?thesis by (simp add: example_env_def)
qed

text \<open>
  Claim C6 says that a successful \<open>/qr\<close> request with \<open>format=svg\<close> is answered with
  content type \<open>image/svg+xml\<close>. The handler builds the type from the format name:
  the answer has status 200, \<open>Content-Type: image/svg\<close>, the length of the buffer as
  \<open>Content-Length\<close>, and \<open>Cache-Control: public, max-age=604800\<close>.
\<close>

theorem qr_svg_content_type:
  assumes "truthy (query req ''text'')" and "query req ''format'' = JStr ''svg''"
    and "decodeURIComponent e (toString (query req ''text'')) = Inr qrData"
    and "renderQr e ''svg'' (query req ''mode'') qrData (qr_opts (query req)) = Inr buf"
  shows "app_get_qr e req =
           \<lparr>status = 200,
            headers = [(''Content-Type'', HStr ''image/svg''),
                       (''Content-Length'', HNum (buf_length buf)),
                       (''Cache-Control'', HStr ''public, max-age=604800'')],
            content = buf\<rparr>"
  using assms by (simp add: app_get_qr_def qr_format_def)

theorem qr_svg_content_type_witness:
  "truthy (query svg_request ''text'')
   \<and> query svg_request ''format'' = JStr ''svg''
   \<and> app_get_qr example_env svg_request =
        \<lparr>status = 200,
         headers = [(''Content-Type'', HStr ''image/svg''),
                    (''Content-Length'', HNum 10),
                    (''Cache-Control'', HStr ''public, max-age=604800'')],
         content = Buffer ''text:hello''\<rparr>"
proof -
  have t: "truthy (query svg_request ''text'')"
    by (simp add: svg_request_def)
  have f: "query svg_request ''format'' = JStr ''svg''"
    by (simp add: svg_request_def)
  have d: "decodeURIComponent example_env (toString (query svg_request ''text''))
             = Inr ''hello''"
    by (simp add: svg_request_def example_env_def)
  have r: "renderQr example_env ''svg'' (query svg_request ''mode'') ''hello''
             (qr_opts (query svg_request)) = Inr (Buffer ''text:hello'')"
    by (simp add: svg_request_def example_env_def no_params_def renderQr_def
        qr_promise_def)
  from qr_svg_content_type [OF t f d r] t f
  show ?thesis by (simp add: buf_length_def)
qed

text \<open>
  Claim C7: for a \<open>/qr\<close> request whose text decodes to \<open>qrData\<close>, the handler's
  answer is the one made from a single call of the \<open>qrcode\<close> package. With
  \<open>mode=sjis\<close> in the query the payload of that call is one segment of mode
  \<open>kanji\<close> holding the text, and the options carry the SJIS mapping function; with
  any other mode the payload is the text itself and the options carry no mapping
  function, so the package's default encoder is used.
\<close>

theorem qr_request_payload:
  assumes "truthy (query req ''text'')"
    and "decodeURIComponent e (toString (query req ''text'')) = Inr qrData"
  shows "app_get_qr e req =
     (let q = query req;
          sjis = (q ''mode'' = JStr ''sjis'');
          payload = (if sjis then Segments [Segment qrData ''kanji''] else Text qrData);
          options = (qr_opts q)\<lparr>toSJISFunc := (if sjis then Some toSJIS else None)\<rparr>;
          svg = (q ''format'' = JStr ''svg'');
          rendered =
            (if svg
             then (case qrcode_toString e payload options of
                     Inl err \<Rightarrow> Inl err
                   | Inr str \<Rightarrow> Inr (Buffer_from_utf8 e str))
             else (case qrcode_toDataURL e payload options of
                     Inl err \<Rightarrow> Inl err
                   | Inr dataUrl \<Rightarrow>
                       Buffer_from_base64 e (index1 (split_on CHR '','' dataUrl))))
      in case rendered of
           Inl err \<Rightarrow> failPng e (qr_error err)
         | Inr buf \<Rightarrow>
             \<lparr>status = 200,
              headers = [(''Content-Type'', HStr (if svg then ''image/svg'' else ''image/png'')),
                         (''Content-Length'', HNum (buf_length buf)),
                         (''Cache-Control'', HStr ''public, max-age=604800'')],
              content = buf\<rparr>)"
proof -
  have o: "(qr_opts (query req))\<lparr>toSJISFunc := None\<rparr> = qr_opts (query req)"
    by (simp add: qr_opts_def)
  show ?thesis
    using assms o
    by (simp add: app_get_qr_def renderQr_def qr_promise_def qr_format_def Let_def
        split: sum.splits)
qed

theorem qr_request_payload_witness:
  "truthy (query sjis_request ''text'')
   \<and> decodeURIComponent example_env (toString (query sjis_request ''text'')) = Inr ''abc''
   \<and> query sjis_request ''mode'' = JStr ''sjis''
   \<and> app_get_qr example_env sjis_request =
        \<lparr>status = 200,
         headers = [(''Content-Type'', HStr ''image/svg''),
                    (''Content-Length'', HNum 9),
                    (''Cache-Control'', HStr ''public, max-age=604800'')],
         content = Buffer ''kanji:abc''\<rparr>
   \<and> truthy (query byte_request ''text'')
   \<and> decodeURIComponent example_env (toString (query byte_request ''text'')) = Inr ''abc''
   \<and> query byte_request ''mode'' \<noteq> JStr ''sjis''
   \<and> app_get_qr example_env byte_request =
        \<lparr>status = 200,
         headers = [(''Content-Type'', HStr ''image/svg''),
                    (''Content-Length'', HNum 8),
                    (''Cache-Control'', HStr ''public, max-age=604800'')],
         content = Buffer ''text:abc''\<rparr>"
proof -
  have t1: "truthy (query sjis_request ''text'')"
    by (simp add: sjis_request_def)
  have d1: "decodeURIComponent example_env (toString (query sjis_request ''text'')) = Inr ''abc''"
    by (simp add: sjis_request_def example_env_def)
  have t2: "truthy (query byte_request ''text'')"
    by (simp add: byte_request_def)
  have d2: "decodeURIComponent example_env (toString (query byte_request ''text'')) = Inr ''abc''"
    by (simp add: byte_request_def example_env_def)
  have a1: "app_get_qr example_env sjis_request =
        \<lparr>status = 200,
         headers = [(''Content-Type'', HStr ''image/svg''),
                    (''Content-Length'', HNum 9),
                    (''Cache-Control'', HStr ''public, max-age=604800'')],
         content = Buffer ''kanji:abc''\<rparr>"
    using qr_request_payload [OF t1 d1]
    by (simp add: sjis_request_def example_env_def buf_length_def)
  have a2: "app_get_qr example_env byte_request =
        \<lparr>status = 200,
         headers = [(''Content-Type'', HStr ''image/svg''),
                    (''Content-Length'', HNum 8),
                    (''Cache-Control'', HStr ''public, max-age=604800'')],
         content = Buffer ''text:abc''\<rparr>"
    using qr_request_payload [OF t2 d2]
    by (simp add: byte_request_def example_env_def buf_length_def)
  from t1 d1 t2 d2 a1 a2 show ?thesis
    by (simp add: sjis_request_def byte_request_def)
qed

section \<open>Properties of the chart handlers\<close>

text \<open>
  Claim C4: when the output format is \<open>pdf\<close>, a chart definition is present and the
  chart renderer rejects with \<open>err\<close>, both the GET and the POST handler answer with
  status 500, the single header \<open>Content-Type: application/pdf\<close>, and as body the PDF
  that \<open>getPdfBufferWithText\<close> makes of \<open>err\<close>.
\<close>

theorem pdf_render_failure:
  assumes "outputFormat p = Some ''pdf''"
    and "truthy (chart (chart_opts p))"
    and "renderChart e (render_width (chart_opts p)) (render_height (chart_opts p))
           (js_or (backgroundColor (chart_opts p)) (JStr ''transparent''))
           (chart (chart_opts p)) = Inl err"
  shows "app_get_chart e (req\<lparr>query := p\<rparr>) =
           Responded \<lparr>status = 500,
                      headers = [(''Content-Type'', HStr ''application/pdf'')],
                      content = getPdfBufferWithText e err\<rparr>
         \<and> app_post_chart e (req\<lparr>body := p\<rparr>) =
           Responded \<lparr>status = 500,
                      headers = [(''Content-Type'', HStr ''application/pdf'')],
                      content = getPdfBufferWithText e err\<rparr>"
  using assms
  by (simp add: app_get_chart_def app_post_chart_def chart_handler_def doRenderPdf_def
      doRender_def failPdf_def)

theorem pdf_render_failure_witness:
  "outputFormat pdf_params = Some ''pdf''
   \<and> truthy (chart (chart_opts pdf_params))
   \<and> app_get_chart example_env (example_request\<lparr>query := pdf_params\<rparr>) =
           Responded \<lparr>status = 500,
                      headers = [(''Content-Type'', HStr ''application/pdf'')],
                      content = Buffer ''%PDFError: bad chart''\<rparr>
   \<and> app_post_chart example_env (post_request\<lparr>body := pdf_params\<rparr>) =
           Responded \<lparr>status = 500,
                      headers = [(''Content-Type'', HStr ''application/pdf'')],
                      content = Buffer ''%PDFError: bad chart''\<rparr>"
proof -
  have f: "outputFormat pdf_params = Some ''pdf''"
    by code_simp
  have c: "truthy (chart (chart_opts pdf_params))"
    by (simp add: chart_opts_def js_or_def no_params_def pdf_params_def)
  have r: "renderChart example_env x y z w = Inl (ErrorObj ''Error'' ''bad chart'')"
    for x y z w
    by (simp add: example_env_def)
  from pdf_render_failure [OF f c r, of example_request]
    pdf_render_failure [OF f c r, of post_request] f c
  show ?thesis
    by (simp add: example_env_def)
qed

section \<open>Properties of the rate limiter\<close>

text \<open>
  Claim C2 says that every \<open>/chart\<close> request that supplies a privileged key is
  allowed without being counted. The \<open>skip\<close> option reads the query string only: a
  POST request that supplies the key in its body, where the POST handler reads all its
  parameters, is counted and, with the window already over the limit, rejected.
\<close>

theorem privileged_body_key_counterexample:
  "req_verb post_request = POST
   \<and> route_matches ''/chart'' (req_path post_request)
   \<and> truthy (body post_request ''key'')
   \<and> apiKeys_has example_env (body post_request ''key'')
   \<and> fst (limiter example_env busy_store post_request) = Reject
   \<and> snd (limiter example_env busy_store post_request) ''10.0.0.1''
       = Some \<lparr>windowStart = 500, count = 1001\<rparr>
   \<and> busy_store ''10.0.0.1'' = Some \<lparr>windowStart = 500, count = 1000\<rparr>
   \<and> fst (app example_env busy_store post_request) = TooManyRequests message"
  by (simp add: post_request_def example_env_def busy_store_def no_params_def
      route_matches_def mount_matches_def strip_slash_def toLowerCase_def lower_char_def
      limiter_def rateLimit_def skip_def current_window_def windowMs_def limitMax_def
      parse_defs app_def rate_limit_enabled_def Let_def)

text \<open>
  Claim C2, amended: when the query string carries a non-empty key that the key store
  knows, the limiter allows the request whatever the store of windows holds and returns
  the store unchanged, so the application passes the request to the routes with the
  same store.
\<close>

theorem privileged_key_bypass:
  assumes "truthy (query req ''key'')" and "apiKeys_has e (query req ''key'')"
  shows "limiter e st req = (Allow, st) \<and> app e st req = (routes e req, st)"
  using assms by (simp add: limiter_def rateLimit_def skip_def app_def)

theorem privileged_key_bypass_witness:
  "truthy (query key_request ''key'')
   \<and> apiKeys_has example_env (query key_request ''key'')
   \<and> limiter example_env busy_store key_request = (Allow, busy_store)
   \<and> app example_env busy_store key_request
       = (routes example_env key_request, busy_store)"
proof -
  have t: "truthy (query key_request ''key'')"
    by (simp add: key_request_def)
  have k: "apiKeys_has example_env (query key_request ''key'')"
    by (simp add: key_request_def example_env_def)
  from privileged_key_bypass [OF t k, of busy_store] t k
  show ?thesis by simp
qed



end
